theory Spec2Isabelle
  imports Complex_Main
begin

section \<open>Chart data as the export manager receives it\<close>

text \<open>
  \<^verbatim>\<open>ChartData = {label: string, value: number, color?: string}\<close> and
  \<^verbatim>\<open>ScatterData = {x: number, y: number, label?: string, color?: string}\<close> are
  interfaces only: at run time \<^verbatim>\<open>exportCSV\<close> receives an array of plain objects and
  tells the two shapes apart by probing for the property \<^verbatim>\<open>x\<close>.  A datum is
  therefore modelled as one object with five optional properties; \<open>None\<close> is an
  absent property (reading it gives \<^verbatim>\<open>undefined\<close>).  The number type is a parameter.
\<close>

record 'n datum =
  d_x :: "'n option"
  d_y :: "'n option"
  d_label :: "string option"
  d_value :: "'n option"
  d_color :: "string option"

definition ChartData :: "string \<Rightarrow> 'n \<Rightarrow> string option \<Rightarrow> 'n datum" where
  "ChartData l v c =
     \<lparr>d_x = None, d_y = None, d_label = Some l, d_value = Some v, d_color = c\<rparr>"

definition ScatterData :: "'n \<Rightarrow> 'n \<Rightarrow> string option \<Rightarrow> string option \<Rightarrow> 'n datum" where
  "ScatterData a b l c =
     \<lparr>d_x = Some a, d_y = Some b, d_label = l, d_value = None, d_color = c\<rparr>"

text \<open>\<^verbatim>\<open>'x' in d\<close>\<close>

definition has_x :: "'n datum \<Rightarrow> bool" where
  "has_x d = (d_x d \<noteq> None)"

subsection \<open>Template literals\<close>

text \<open>
  \<^verbatim>\<open>${e}\<close> converts \<open>e\<close> to a string; \<^verbatim>\<open>undefined\<close> becomes the text
  \<^verbatim>\<open>undefined\<close>.  The conversion of a number is the parameter \<open>str\<close>.
  \<^verbatim>\<open>e || ''\<close> replaces a falsy \<open>e\<close> (absent, or the empty string) by the empty string.
\<close>

definition interp_num :: "('n \<Rightarrow> string) \<Rightarrow> 'n option \<Rightarrow> string" where
  "interp_num str v = (case v of None \<Rightarrow> ''undefined'' | Some n \<Rightarrow> str n)"

definition interp_str :: "string option \<Rightarrow> string" where
  "interp_str v = (case v of None \<Rightarrow> ''undefined'' | Some s \<Rightarrow> s)"

definition or_empty :: "string option \<Rightarrow> string" where
  "or_empty v = (case v of None \<Rightarrow> [] | Some s \<Rightarrow> s)"

definition newline :: string where
  "newline = [CHR 0x0A]"

subsection \<open>Decimal text of an integer-valued number\<close>

text \<open>
  For an integer-valued number of magnitude below \<open>10^21\<close> the conversion to a string
  is its decimal numeral, with a leading minus sign when negative.
\<close>

definition digit_char :: "nat \<Rightarrow> char" where
  "digit_char d =
     (if d = 0 then CHR ''0'' else if d = 1 then CHR ''1'' else if d = 2 then CHR ''2''
      else if d = 3 then CHR ''3'' else if d = 4 then CHR ''4'' else if d = 5 then CHR ''5''
      else if d = 6 then CHR ''6'' else if d = 7 then CHR ''7'' else if d = 8 then CHR ''8''
      else CHR ''9'')"

function nat_digits :: "nat \<Rightarrow> string" where
  "nat_digits n = (if n < 10 then [digit_char n] else nat_digits (n div 10) @ [digit_char (n mod 10)])"
  by pat_completeness auto
termination
  by (relation "measure id") auto

declare nat_digits.simps [simp del]

definition numberToString :: "int \<Rightarrow> string" where
  "numberToString i = (if i < 0 then CHR ''-'' # nat_digits (nat (- i)) else nat_digits (nat i))"

section \<open>ExportManager.exportCSV\<close>

text \<open>
  \<^verbatim>\<open>downloadFile(content, filename, mimeType)\<close> is the only effect of the function; the
  model returns the list of downloads it triggered beside the CSV text.
\<close>

record download =
  dl_content :: string
  dl_filename :: string
  dl_mimeType :: string

definition downloadFile :: "string \<Rightarrow> string \<Rightarrow> string \<Rightarrow> download" where
  "downloadFile content filename mimeType =
     \<lparr>dl_content = content, dl_filename = filename, dl_mimeType = mimeType\<rparr>"

definition scatter_header :: string where
  "scatter_header = ''X,Y,Label,Color'' @ newline"

definition chart_header :: string where
  "chart_header = ''Label,Value,Color'' @ newline"

text \<open>\<^verbatim>\<open>`${d.x},${d.y},${d.label || ''},${d.color || ''}\n`\<close>\<close>

definition scatter_row :: "('n \<Rightarrow> string) \<Rightarrow> 'n datum \<Rightarrow> string" where
  "scatter_row str d =
     interp_num str (d_x d) @ '','' @ interp_num str (d_y d) @ '','' @
     or_empty (d_label d) @ '','' @ or_empty (d_color d) @ newline"

text \<open>\<^verbatim>\<open>`${d.label},${d.value},${d.color || ''}\n`\<close>\<close>

definition chart_row :: "('n \<Rightarrow> string) \<Rightarrow> 'n datum \<Rightarrow> string" where
  "chart_row str d =
     interp_str (d_label d) @ '','' @ interp_num str (d_value d) @ '','' @
     or_empty (d_color d) @ newline"

text \<open>
  \<^verbatim>\<open>if (filename)\<close>: an absent file name and the empty string are both falsy.
\<close>

definition download_if_named :: "string option \<Rightarrow> string \<Rightarrow> string \<Rightarrow> download list" where
  "download_if_named filename content mimeType =
     (case filename of
        None \<Rightarrow> []
      | Some f \<Rightarrow> if f = [] then [] else [downloadFile content f mimeType])"

definition exportCSV ::
  "('n \<Rightarrow> string) \<Rightarrow> 'n datum list \<Rightarrow> string option \<Rightarrow> string \<times> download list" where
  "exportCSV str data filename =
     (case data of
        [] \<Rightarrow> ([], [])
      | d0 # _ \<Rightarrow>
          let isScatterData = has_x d0;
              csvContent =
                (if isScatterData
                 then foldl (\<lambda>csv d. csv @ scatter_row str d) scatter_header data
                 else foldl (\<lambda>csv d. csv @ chart_row str d) chart_header data)
          in (csvContent, download_if_named filename csvContent ''text/csv''))"

text \<open>
  The shape rule in the specification's words: the X/Y shape when every record carries
  \<open>x\<close>, the label/value shape otherwise, a header and one row per record.
\<close>

definition exportCSV_spec :: "('n \<Rightarrow> string) \<Rightarrow> 'n datum list \<Rightarrow> string" where
  "exportCSV_spec str data =
     (if list_all has_x data
      then scatter_header @ concat (map (scatter_row str) data)
      else chart_header @ concat (map (chart_row str) data))"

section \<open>ExportManager: SVG, PNG and PDF export\<close>

text \<open>
  Numbers are modelled as exact reals, together with the three values a computation of
  the source can reach beyond them: the two infinities and \<^verbatim>\<open>NaN\<close>.  A zero is the
  positive zero (the sizes that are divided by are not negative), so a quotient by zero
  has the sign of its dividend.
\<close>

datatype jsnum = Fin real | PosInf | NegInf | NaN

fun jdiv :: "jsnum \<Rightarrow> jsnum \<Rightarrow> jsnum" where
  "jdiv NaN _ = NaN"
| "jdiv _ NaN = NaN"
| "jdiv (Fin a) (Fin b) =
     (if b = 0 then (if a = 0 then NaN else if 0 < a then PosInf else NegInf)
      else Fin (a / b))"
| "jdiv (Fin a) PosInf = Fin 0"
| "jdiv (Fin a) NegInf = Fin 0"
| "jdiv PosInf (Fin b) = (if 0 \<le> b then PosInf else NegInf)"
| "jdiv NegInf (Fin b) = (if 0 \<le> b then NegInf else PosInf)"
| "jdiv _ _ = NaN"

fun jmul :: "jsnum \<Rightarrow> jsnum \<Rightarrow> jsnum" where
  "jmul NaN _ = NaN"
| "jmul _ NaN = NaN"
| "jmul (Fin a) (Fin b) = Fin (a * b)"
| "jmul (Fin a) PosInf = (if a = 0 then NaN else if 0 < a then PosInf else NegInf)"
| "jmul (Fin a) NegInf = (if a = 0 then NaN else if 0 < a then NegInf else PosInf)"
| "jmul PosInf (Fin b) = (if b = 0 then NaN else if 0 < b then PosInf else NegInf)"
| "jmul NegInf (Fin b) = (if b = 0 then NaN else if 0 < b then NegInf else PosInf)"
| "jmul PosInf PosInf = PosInf"
| "jmul NegInf NegInf = PosInf"
| "jmul _ _ = NegInf"

fun jsub :: "jsnum \<Rightarrow> jsnum \<Rightarrow> jsnum" where
  "jsub NaN _ = NaN"
| "jsub _ NaN = NaN"
| "jsub (Fin a) (Fin b) = Fin (a - b)"
| "jsub (Fin a) PosInf = NegInf"
| "jsub (Fin a) NegInf = PosInf"
| "jsub PosInf PosInf = NaN"
| "jsub NegInf NegInf = NaN"
| "jsub PosInf _ = PosInf"
| "jsub NegInf _ = NegInf"

text \<open>\<^verbatim>\<open>Math.min\<close> of two numbers.\<close>

fun jmin :: "jsnum \<Rightarrow> jsnum \<Rightarrow> jsnum" where
  "jmin NaN _ = NaN"
| "jmin _ NaN = NaN"
| "jmin NegInf _ = NegInf"
| "jmin _ NegInf = NegInf"
| "jmin PosInf b = b"
| "jmin a PosInf = a"
| "jmin (Fin a) (Fin b) = Fin (min a b)"

text \<open>The comparison \<^verbatim>\<open>a > b\<close>, false as soon as one side is \<^verbatim>\<open>NaN\<close>.\<close>

fun jgt :: "jsnum \<Rightarrow> jsnum \<Rightarrow> bool" where
  "jgt NaN _ = False"
| "jgt _ NaN = False"
| "jgt (Fin a) (Fin b) = (a > b)"
| "jgt _ PosInf = False"
| "jgt NegInf _ = False"
| "jgt PosInf _ = True"
| "jgt (Fin a) NegInf = True"

datatype error = Error string | TypeError string

record ExportConfig =
  cfg_width :: "real option"
  cfg_height :: "real option"
  cfg_backgroundColor :: "string option"
  cfg_quality :: "real option"
  cfg_includeStyles :: "bool option"
  cfg_title :: "string option"
  cfg_author :: "string option"
  cfg_subject :: "string option"

text \<open>A destructuring default \<^verbatim>\<open>{ k = v } = config\<close>: \<open>v\<close> when the property is absent.\<close>

definition default_to :: "'a \<Rightarrow> 'a option \<Rightarrow> 'a" where
  "default_to v p = (case p of None \<Rightarrow> v | Some a \<Rightarrow> a)"

text \<open>
  The rendered vector root found by \<^verbatim>\<open>container.querySelector('svg')\<close>: its child
  nodes and the size of its bounding client rectangle.
\<close>

datatype node = StyleElement string | ChartNode string

record svg =
  svg_children :: "node list"
  rect_width :: real
  rect_height :: real

text \<open>
  What the export reads from the browser: whether a 2D canvas context is available, the
  container's vector root (if any), whether the two image loads and the PNG encoding
  succeed, whether \<^verbatim>\<open>window.jsPDF\<close> is defined, and the page size jsPDF reports.
\<close>

record browser =
  canvas_context :: bool
  svg_element :: "svg option"
  svg_image_loads :: bool
  to_blob_ok :: bool
  jsPDF_defined :: bool
  png_image_loads :: bool
  page_width :: real
  page_height :: real

subsection \<open>exportPNG\<close>

record placement =
  scale :: real
  offsetX :: real
  offsetY :: real
  scaledWidth :: real
  scaledHeight :: real

text \<open>
  The body of \<^verbatim>\<open>img.onload\<close> up to \<^verbatim>\<open>drawImage\<close>.  The result is \<open>None\<close> when one
  of the numbers computed is not finite (\<^verbatim>\<open>drawImage\<close> then draws nothing).
\<close>

definition fitToCanvas :: "real \<Rightarrow> real \<Rightarrow> real \<Rightarrow> real \<Rightarrow> placement option" where
  "fitToCanvas width height rectW rectH =
     (let scaleX = jdiv (Fin width) (Fin rectW);
          scaleY = jdiv (Fin height) (Fin rectH);
          sc = jmin scaleX scaleY;
          sw = jmul (Fin rectW) sc;
          sh = jmul (Fin rectH) sc;
          ox = jdiv (jsub (Fin width) sw) (Fin 2);
          oy = jdiv (jsub (Fin height) sh) (Fin 2)
      in case (sc, ox, oy, sw, sh) of
           (Fin sc', Fin ox', Fin oy', Fin sw', Fin sh') \<Rightarrow>
             Some \<lparr>scale = sc', offsetX = ox', offsetY = oy',
                    scaledWidth = sw', scaledHeight = sh'\<rparr>
         | _ \<Rightarrow> None)"

text \<open>
  The PNG blob, described by the canvas operations that produced it: the canvas size,
  the background fill, the rectangle the image was drawn into and the encoding quality.
\<close>

record png_blob =
  canvas_width :: real
  canvas_height :: real
  fillStyle :: string
  drawImage :: "placement option"
  png_quality :: real

definition exportPNG :: "browser \<Rightarrow> ExportConfig \<Rightarrow> error + png_blob" where
  "exportPNG b config =
     (let width = default_to 800 (cfg_width config);
          height = default_to 600 (cfg_height config);
          backgroundColor = default_to ''white'' (cfg_backgroundColor config);
          quality = default_to (9 / 10) (cfg_quality config)
      in if \<not> canvas_context b then Inl (Error ''Canvas context not available'')
         else case svg_element b of
           None \<Rightarrow> Inl (Error ''No SVG element found in container'')
         | Some svgElement \<Rightarrow>
             if \<not> svg_image_loads b then Inl (Error ''Failed to load SVG as image'')
             else if \<not> to_blob_ok b then Inl (Error ''Failed to create PNG blob'')
             else Inr \<lparr>canvas_width = width, canvas_height = height,
                        fillStyle = backgroundColor,
                        drawImage = fitToCanvas width height
                                      (rect_width svgElement) (rect_height svgElement),
                        png_quality = quality\<rparr>)"

subsection \<open>exportSVG\<close>

text \<open>
  The static stylesheet: one template literal, which opens with a line feed, holds one
  rule per line behind six spaces, and closes with four spaces.
\<close>

definition getComputedStyles :: string where
  "getComputedStyles =
     newline @
     concat (map (\<lambda>rule. ''      '' @ rule @ newline)
       [''.bar { fill: currentColor; }'',
        ''.line { fill: none; stroke: currentColor; }'',
        ''.point { fill: currentColor; }'',
        ''.slice { fill: currentColor; }'',
        ''.grid line { stroke: #E5E7EB; stroke-width: 1; stroke-dasharray: 3,3; }'',
        ''.x-axis line, .y-axis line { stroke: #D1D5DB; stroke-width: 1; }'',
        ''.x-axis path, .y-axis path { stroke: #D1D5DB; stroke-width: 1; }'',
        ''.text-sm { font-size: 0.875rem; }'',
        ''.font-medium { font-weight: 500; }'',
        ''.fill-gray-600 { fill: #4B5563; }'',
        ''.fill-gray-700 { fill: #374151; }'']) @
     ''    ''"

text \<open>
  The result is the serialisation of a clone of the vector root; the serialiser is the
  browser's and is a parameter.
\<close>

definition exportSVG :: "(svg \<Rightarrow> string) \<Rightarrow> browser \<Rightarrow> ExportConfig \<Rightarrow> error + string" where
  "exportSVG serializeToString b config =
     (let includeStyles = default_to True (cfg_includeStyles config)
      in case svg_element b of
           None \<Rightarrow> Inl (Error ''No SVG element found in container'')
         | Some svgElement \<Rightarrow>
             let clonedSvg =
                   (if includeStyles
                    then svgElement\<lparr>svg_children :=
                           StyleElement getComputedStyles # svg_children svgElement\<rparr>
                    else svgElement)
             in Inr (serializeToString clonedSvg))"

subsection \<open>exportPDF\<close>

record pdf_properties =
  pdf_title :: string
  pdf_author :: string
  pdf_subject :: string
  pdf_creator :: string

record image_box =
  img_x :: real
  img_y :: real
  imgWidth :: real
  imgHeight :: real

text \<open>
  The fit of the PNG (whose pixel size is the canvas size) onto the page, with the
  margin of 20 on the constraining axis; \<open>None\<close> when one of the numbers handed to
  \<^verbatim>\<open>addImage\<close> is not finite.  The jsPDF calls themselves are taken not to throw.
\<close>

definition fitToPage :: "real \<Rightarrow> real \<Rightarrow> real \<Rightarrow> real \<Rightarrow> image_box option" where
  "fitToPage pageWidth pageHeight imgW imgH =
     (let imgAspectRatio = jdiv (Fin imgW) (Fin imgH);
          pageAspectRatio = jdiv (Fin pageWidth) (Fin pageHeight);
          wh = (if jgt imgAspectRatio pageAspectRatio
                then (Fin (pageWidth - 20), jdiv (Fin (pageWidth - 20)) imgAspectRatio)
                else (jmul (Fin (pageHeight - 20)) imgAspectRatio, Fin (pageHeight - 20)));
          x = jdiv (jsub (Fin pageWidth) (fst wh)) (Fin 2);
          y = jdiv (jsub (Fin pageHeight) (snd wh)) (Fin 2)
      in case (x, y, wh) of
           (Fin x', Fin y', Fin w', Fin h') \<Rightarrow>
             Some \<lparr>img_x = x', img_y = y', imgWidth = w', imgHeight = h'\<rparr>
         | _ \<Rightarrow> None)"

record pdf_blob =
  pdf_props :: pdf_properties
  pdf_image :: "image_box option"

definition exportPDF :: "browser \<Rightarrow> ExportConfig \<Rightarrow> error + pdf_blob" where
  "exportPDF b config =
     (let width = default_to 800 (cfg_width config);
          height = default_to 600 (cfg_height config);
          title = default_to ''Chart Export'' (cfg_title config);
          author = default_to ''Synerity Charts'' (cfg_author config)
      in if \<not> jsPDF_defined b
         then Inl (Error ''jsPDF library not found. Please include jsPDF in your project.'')
         else case exportPNG b \<lparr>cfg_width = Some width, cfg_height = Some height,
                                 cfg_backgroundColor = None, cfg_quality = None,
                                 cfg_includeStyles = None, cfg_title = None,
                                 cfg_author = None, cfg_subject = None\<rparr> of
           Inl e \<Rightarrow> Inl e
         | Inr pngBlob \<Rightarrow>
             if \<not> png_image_loads b then Inl (Error ''Failed to load PNG image for PDF'')
             else Inr \<lparr>pdf_props = \<lparr>pdf_title = title, pdf_author = author,
                                       pdf_subject = ''Chart Export'',
                                       pdf_creator = ''Synerity Charts''\<rparr>,
                        pdf_image = fitToPage (page_width b) (page_height b)
                                      (canvas_width pngBlob) (canvas_height pngBlob)\<rparr>)"

text \<open>
  The metadata in the specification's words: each of title, author and subject is the
  field of the request, and the product name where the request omits it.
\<close>

definition productName :: string where
  "productName = ''Synerity Charts''"

definition pdf_properties_spec :: "ExportConfig \<Rightarrow> string \<times> string \<times> string" where
  "pdf_properties_spec config =
     (default_to productName (cfg_title config),
      default_to productName (cfg_author config),
      default_to productName (cfg_subject config))"

section \<open>ScatterPlot: trend line and clustering\<close>

text \<open>
  Inside the scatter plot the data are \<^verbatim>\<open>ScatterData\<close> records whose \<open>x\<close> and \<open>y\<close>
  are read as numbers.  Numbers are exact reals; \<open>jsdiv\<close> is the division of the
  source, with \<open>None\<close> for the quotient by zero (\<^verbatim>\<open>NaN\<close> or an infinity).  Every
  use the source makes of such a quotient (a product, a sum, a difference, a
  dividend) is again not a finite number, so \<open>None\<close> propagates.
\<close>

record ScatterPoint =
  pt_x :: real
  pt_y :: real
  pt_label :: "string option"
  pt_color :: "string option"

definition jsdiv :: "real \<Rightarrow> real \<Rightarrow> real option" where
  "jsdiv a b = (if b = 0 then None else Some (a / b))"

subsection \<open>Linear regression of renderTrendLine\<close>

record regression =
  slope :: "real option"
  intercept :: "real option"

definition linearRegression :: "ScatterPoint list \<Rightarrow> regression" where
  "linearRegression data =
     (let n = real (length data);
          sumX = foldl (\<lambda>sum d. sum + pt_x d) 0 data;
          sumY = foldl (\<lambda>sum d. sum + pt_y d) 0 data;
          sumXY = foldl (\<lambda>sum d. sum + pt_x d * pt_y d) 0 data;
          sumXX = foldl (\<lambda>sum d. sum + pt_x d * pt_x d) 0 data;
          m = jsdiv (n * sumXY - sumX * sumY) (n * sumXX - sumX * sumX);
          c = (case m of None \<Rightarrow> None | Some sl \<Rightarrow> jsdiv (sumY - sl * sumX) n)
      in \<lparr>slope = m, intercept = c\<rparr>)"

text \<open>\<^verbatim>\<open>d3.extent\<close>: the least and the greatest value, nothing for no values.\<close>

definition extent :: "real list \<Rightarrow> (real \<times> real) option" where
  "extent vs = (case vs of [] \<Rightarrow> None | v # rest \<Rightarrow> Some (foldl min v rest, foldl max v rest))"

text \<open>\<^verbatim>\<open>slope * x + intercept\<close>\<close>

definition lineAt :: "regression \<Rightarrow> real \<Rightarrow> real option" where
  "lineAt r x0 =
     (case slope r of None \<Rightarrow> None
      | Some sl \<Rightarrow> (case intercept r of None \<Rightarrow> None | Some c \<Rightarrow> Some (sl * x0 + c)))"

text \<open>
  The elements appended to the chart group.  A trend line carries its two end points
  \<open>trendData\<close> in data coordinates (the pixel scales are d3's); an ordinate that is
  not a finite number is \<open>None\<close>.
\<close>

datatype element =
    Grid
  | XAxis
  | YAxis
  | Point real real
  | TrendLine real "real option" real "real option"
  | ClusterBoundary "nat list"

record trendLineOptions =
  tl_enabled :: bool
  tl_type :: string

text \<open>
  \<open>cl_maxClusters\<close> is the number the option \<^verbatim>\<open>maxClusters\<close> stands for where it is
  used, as the bound of the centroid loop and the length of the cluster array; an
  omitted \<^verbatim>\<open>maxClusters\<close> gives no centroid and no cluster, as 0 does.
\<close>

record clusteringOptions =
  cl_enabled :: bool
  cl_maxClusters :: nat
  cl_showClusterBoundaries :: bool

record ScatterPlotOptions =
  opt_showGrid :: bool
  opt_trendLine :: "trendLineOptions option"
  opt_clustering :: "clusteringOptions option"

datatype diagnostic = ConsoleWarn string | ConsoleError string

record ScatterPlot =
  sp_data :: "ScatterPoint list"
  sp_options :: ScatterPlotOptions
  sp_chartGroup :: "element list"
  sp_clusters :: "nat list list"
  sp_console :: "diagnostic list"

definition renderTrendLine :: "ScatterPlot \<Rightarrow> ScatterPlot" where
  "renderTrendLine s =
     (if map_option tl_type (opt_trendLine (sp_options s)) = Some ''linear''
      then
        (let r = linearRegression (sp_data s) in
         case extent (map pt_x (sp_data s)) of
           None \<Rightarrow> s
         | Some (x0, x1) \<Rightarrow>
             s\<lparr>sp_chartGroup := sp_chartGroup s @ [TrendLine x0 (lineAt r x0) x1 (lineAt r x1)]\<rparr>)
      else s)"

subsection \<open>performClustering\<close>

type_synonym point = "real \<times> real"

definition distance :: "point \<Rightarrow> point \<Rightarrow> real" where
  "distance p c = sqrt ((fst p - fst c)\<^sup>2 + (snd p - snd c)\<^sup>2)"

text \<open>
  The inner \<^verbatim>\<open>centroids.forEach\<close>: \<open>minDistance\<close> starts at infinity (\<open>None\<close>) and
  \<open>clusterIndex\<close> at 0; a strictly smaller distance replaces both.
\<close>

definition closer :: "real \<Rightarrow> real option \<Rightarrow> bool" where
  "closer d minDistance = (case minDistance of None \<Rightarrow> True | Some m \<Rightarrow> d < m)"

definition compareCentroid :: "point \<Rightarrow> real option \<times> nat \<Rightarrow> nat \<times> point \<Rightarrow> real option \<times> nat" where
  "compareCentroid p =
     (\<lambda>(minDistance, clusterIndex) (i, centroid).
        if closer (distance p centroid) minDistance
        then (Some (distance p centroid), i)
        else (minDistance, clusterIndex))"

definition nearestCentroid :: "point list \<Rightarrow> point \<Rightarrow> nat" where
  "nearestCentroid centroids p =
     snd (foldl (compareCentroid p) (None, 0) (enumerate 0 centroids))"

text \<open>
  \<^verbatim>\<open>clusters[clusterIndex].push(index)\<close> for every point in order; with no cluster at
  that index the call is on \<^verbatim>\<open>undefined\<close> and throws.
\<close>

definition pushIndex :: "point list \<Rightarrow> error + nat list list \<Rightarrow> nat \<times> point \<Rightarrow> error + nat list list" where
  "pushIndex centroids acc ip =
     (case acc of
        Inl e \<Rightarrow> Inl e
      | Inr clusters \<Rightarrow>
          let clusterIndex = nearestCentroid centroids (snd ip)
          in if clusterIndex < length clusters
             then Inr (clusters[clusterIndex := clusters ! clusterIndex @ [fst ip]])
             else Inl (TypeError ''Cannot read properties of undefined (reading push)''))"

definition assignPoints :: "nat \<Rightarrow> point list \<Rightarrow> point list \<Rightarrow> error + nat list list" where
  "assignPoints k centroids points =
     foldl (pushIndex centroids) (Inr (replicate k [])) (enumerate 0 points)"

text \<open>The new centroid of a cluster of point indices.\<close>

definition updateCentroid :: "point list \<Rightarrow> nat list \<Rightarrow> point" where
  "updateCentroid points cluster =
     (if length cluster = 0 then (0, 0)
      else
        let sumX = foldl (\<lambda>sum index. sum + fst (points ! index)) 0 cluster;
            sumY = foldl (\<lambda>sum index. sum + snd (points ! index)) 0 cluster
        in (sumX / real (length cluster), sumY / real (length cluster)))"

text \<open>The loop \<^verbatim>\<open>for (let iteration = 0; iteration < 10; iteration++)\<close>.\<close>

function kmeans_loop ::
  "point list \<Rightarrow> nat \<Rightarrow> nat \<Rightarrow> point list \<Rightarrow> nat list list \<Rightarrow> error + point list \<times> nat list list" where
  "kmeans_loop points k iteration centroids finalClusters =
     (if iteration < 10
      then (case assignPoints k centroids points of
              Inl e \<Rightarrow> Inl e
            | Inr clusters \<Rightarrow>
                kmeans_loop points k (Suc iteration)
                  (map (updateCentroid points) clusters) clusters)
      else Inr (centroids, finalClusters))"
  by pat_completeness auto
termination
  by (relation "measure (\<lambda>(points, k, iteration, centroids, finalClusters). 10 - iteration)") auto

declare kmeans_loop.simps [simp del]

text \<open>
  The initial centroids: \<open>k\<close> times \<^verbatim>\<open>points[Math.floor(Math.random() * points.length)]\<close>,
  copied by a spread, which throws on \<^verbatim>\<open>undefined\<close>.  \<open>rnd i\<close> is the value of the
  \<open>i\<close>-th call of \<^verbatim>\<open>Math.random\<close>.
\<close>

definition randomPoint :: "point list \<Rightarrow> real \<Rightarrow> error + point" where
  "randomPoint points r =
     (let randomIndex = \<lfloor>r * real (length points)\<rfloor>
      in if 0 \<le> randomIndex \<and> randomIndex < int (length points)
         then Inr (points ! nat randomIndex)
         else Inl (TypeError ''points[randomIndex] is not iterable''))"

definition initCentroids :: "(nat \<Rightarrow> real) \<Rightarrow> nat \<Rightarrow> point list \<Rightarrow> error + point list" where
  "initCentroids rnd k points =
     foldl (\<lambda>acc i. case acc of
                       Inl e \<Rightarrow> Inl e
                     | Inr centroids \<Rightarrow>
                         (case randomPoint points (rnd i) of
                            Inl e \<Rightarrow> Inl e
                          | Inr c \<Rightarrow> Inr (centroids @ [c])))
           (Inr []) [0..<k]"

definition performClustering :: "(nat \<Rightarrow> real) \<Rightarrow> ScatterPlot \<Rightarrow> error + ScatterPlot" where
  "performClustering rnd s =
     (let k = (case opt_clustering (sp_options s) of None \<Rightarrow> 0 | Some c \<Rightarrow> cl_maxClusters c);
          points = map (\<lambda>d. (pt_x d, pt_y d)) (sp_data s)
      in case initCentroids rnd k points of
           Inl e \<Rightarrow> Inl e
         | Inr centroids \<Rightarrow>
             (case kmeans_loop points k 0 centroids [] of
                Inl e \<Rightarrow> Inl e
              | Inr (_, finalClusters) \<Rightarrow> Inr (s\<lparr>sp_clusters := finalClusters\<rparr>)))"

text \<open>A boundary is drawn for every cluster of more than two points.\<close>

definition renderClusterBoundaries :: "ScatterPlot \<Rightarrow> ScatterPlot" where
  "renderClusterBoundaries s =
     s\<lparr>sp_chartGroup := sp_chartGroup s @
          map ClusterBoundary (filter (\<lambda>cluster. length cluster > 2) (sp_clusters s))\<rparr>"

subsection \<open>One round of k-means in the specification's words\<close>

text \<open>
  Every point goes to the cluster of its nearest centroid, nearest in the Euclidean
  distance of the plane (the first such centroid when several are equally near); then
  the centroid of a cluster is the mean of its points, and \<open>(0, 0)\<close> for a cluster
  without points.
\<close>

definition euclidean :: "point \<Rightarrow> point \<Rightarrow> real" where
  "euclidean p c = sqrt ((fst p - fst c)\<^sup>2 + (snd p - snd c)\<^sup>2)"

definition nearest_index :: "point list \<Rightarrow> point \<Rightarrow> nat" where
  "nearest_index centroids p =
     (case filter (\<lambda>j. list_all (\<lambda>c. euclidean p (centroids ! j) \<le> euclidean p c) centroids)
             [0..<length centroids] of
        [] \<Rightarrow> 0
      | j # _ \<Rightarrow> j)"

definition assign_nearest :: "nat \<Rightarrow> point list \<Rightarrow> point list \<Rightarrow> nat list list" where
  "assign_nearest k centroids points =
     map (\<lambda>j. filter (\<lambda>i. nearest_index centroids (points ! i) = j) [0..<length points]) [0..<k]"

definition cluster_mean :: "point list \<Rightarrow> nat list \<Rightarrow> point" where
  "cluster_mean points cluster =
     (if cluster = [] then (0, 0)
      else ((\<Sum>i\<leftarrow>cluster. fst (points ! i)) / real (length cluster),
            (\<Sum>i\<leftarrow>cluster. snd (points ! i)) / real (length cluster)))"

definition kmeans_round ::
  "point list \<Rightarrow> nat \<Rightarrow> point list \<times> nat list list \<Rightarrow> point list \<times> nat list list" where
  "kmeans_round points k =
     (\<lambda>(centroids, _).
        let clusters = assign_nearest k centroids points
        in (map (cluster_mean points) clusters, clusters))"

subsection \<open>ScatterPlot.render\<close>

definition option_flag :: "('a \<Rightarrow> bool) \<Rightarrow> 'a option \<Rightarrow> bool" where
  "option_flag f v = (case v of None \<Rightarrow> False | Some a \<Rightarrow> f a)"

definition ScatterPlot_render :: "(nat \<Rightarrow> real) \<Rightarrow> ScatterPlot \<Rightarrow> error + ScatterPlot" where
  "ScatterPlot_render rnd s =
     (if sp_data s = []
      then Inr (s\<lparr>sp_console := sp_console s @ [ConsoleWarn ''No data available for scatter plot rendering'']\<rparr>)
      else
        let opts = sp_options s;
            s1 = s\<lparr>sp_chartGroup := []\<rparr>;
            s2 = (if opt_showGrid opts
                  then s1\<lparr>sp_chartGroup := sp_chartGroup s1 @ [Grid, Grid]\<rparr> else s1);
            s3 = s2\<lparr>sp_chartGroup := sp_chartGroup s2 @ [XAxis, YAxis]\<rparr>
        in case (if option_flag cl_enabled (opt_clustering opts)
                 then performClustering rnd s3 else Inr s3) of
             Inl e \<Rightarrow> Inl e
           | Inr s4 \<Rightarrow>
               let s5 = s4\<lparr>sp_chartGroup := sp_chartGroup s4 @
                              map (\<lambda>d. Point (pt_x d) (pt_y d)) (sp_data s4)\<rparr>;
                   s6 = (if option_flag tl_enabled (opt_trendLine opts)
                         then renderTrendLine s5 else s5);
                   s7 = (if option_flag cl_enabled (opt_clustering opts) \<and>
                            option_flag cl_showClusterBoundaries (opt_clustering opts)
                         then renderClusterBoundaries s6 else s6)
               in Inr s7)"

section \<open>PieChart\<close>

record ChartPoint =
  cp_label :: string
  cp_value :: real
  cp_color :: "string option"

text \<open>
  Of the options only what decides which elements are appended: the \<open>enabled\<close> flag
  of the \<open>labels\<close> object (if the object is there) and whether there is a \<open>legend\<close>
  object.
\<close>

record PieChartOptions =
  po_labels :: "bool option"
  po_legend :: bool

datatype pie_element = Slice nat | Label nat

datatype legend_element = LegendItem nat

record PieChart =
  pie_data :: "ChartPoint list"
  pie_options :: PieChartOptions
  pie_chartGroup :: "pie_element list"
  pie_legendGroup :: "legend_element list"
  pie_explodedSlices :: "nat list"
  pie_console :: "diagnostic list"

definition PieChart_render :: "PieChart \<Rightarrow> PieChart" where
  "PieChart_render s =
     (if pie_data s = []
      then s\<lparr>pie_console := pie_console s @
                [ConsoleWarn ''No data available for pie chart rendering'']\<rparr>
      else
        let totalValue = foldl (\<lambda>sum d. sum + cp_value d) 0 (pie_data s)
        in if totalValue \<le> 0
           then s\<lparr>pie_console := pie_console s @
                     [ConsoleError ''Total value is zero or negative, cannot render pie chart'']\<rparr>
           else
             let n = length (pie_data s);
                 s1 = s\<lparr>pie_chartGroup := [], pie_legendGroup := []\<rparr>;
                 s2 = s1\<lparr>pie_chartGroup := pie_chartGroup s1 @ map Slice [0..<n]\<rparr>;
                 s3 = (if po_labels (pie_options s) = Some True
                       then s2\<lparr>pie_chartGroup := pie_chartGroup s2 @ map Label [0..<n]\<rparr>
                       else s2);
                 s4 = (if po_legend (pie_options s)
                       then s3\<lparr>pie_legendGroup := pie_legendGroup s3 @ map LegendItem [0..<n]\<rparr>
                       else s3)
             in s4)"

text \<open>
  The constructor (the container is taken to exist): it rejects an empty array,
  creates the empty chart and legend groups and renders.
\<close>

definition PieChart_constructor :: "ChartPoint list \<Rightarrow> PieChartOptions \<Rightarrow> error + PieChart" where
  "PieChart_constructor data opts =
     (if length data = 0 then Inl (Error ''Pie chart requires ChartData[] format'')
      else Inr (PieChart_render
                  \<lparr>pie_data = data, pie_options = opts, pie_chartGroup = [],
                   pie_legendGroup = [], pie_explodedSlices = [], pie_console = []\<rparr>))"

definition PieChart_update :: "ChartPoint list \<Rightarrow> PieChart \<Rightarrow> PieChart" where
  "PieChart_update newData s =
     (if length newData = 0
      then s\<lparr>pie_console := pie_console s @
                [ConsoleWarn ''Invalid data provided to pie chart update'']\<rparr>
      else PieChart_render (s\<lparr>pie_data := newData, pie_explodedSlices := []\<rparr>))"

section \<open>Properties of exportCSV\<close>

lemma foldl_append_rows: "foldl (\<lambda>csv d. csv @ f d) acc ds = acc @ concat (map f ds)"
  by (induction ds arbitrary: acc) simp_all

lemma exportCSV_Cons:
  "fst (exportCSV str (d # ds) filename) =
     (if has_x d
      then scatter_header @ concat (map (scatter_row str) (d # ds))
      else chart_header @ concat (map (chart_row str) (d # ds)))"
  by (simp add: exportCSV_def Let_def foldl_append_rows)

text \<open>
  Claim C1.  For the two label/value records Q1 = 120 (no colour) and Q2 = 180 with colour
  \<open>#10B981\<close>, \<open>exportCSV\<close> returns exactly the header line \<open>Label,Value,Color\<close>,
  then the rows \<open>Q1,120,\<close> and \<open>Q2,180,#10B981\<close> in input order, each line ended
  by the line feed character (code 10); the missing colour is the empty string.  The
  file name plays no part.
\<close>

theorem exportCSV_example:
  "fst (exportCSV numberToString
          [ChartData ''Q1'' 120 None, ChartData ''Q2'' 180 (Some ''#10B981'')] filename) =
     ''Label,Value,Color'' @ [CHR 0x0A] @ ''Q1,120,'' @ [CHR 0x0A] @
     ''Q2,180,#10B981'' @ [CHR 0x0A]"
  by (simp add: exportCSV_Cons ChartData_def has_x_def chart_row_def chart_header_def
        interp_num_def interp_str_def or_empty_def numberToString_def nat_digits.simps
        digit_char_def newline_def)

text \<open>
  Claim C3, as stated: the shape is chosen by whether every record carries \<open>x\<close>.
  The code looks at the first record only, and returns the empty text for the empty
  array.  Two inputs separate the two readings: the empty array (every record of it
  carries \<open>x\<close>, yet no header is written), and an array whose first record carries
  \<open>x\<close> while its second does not (the X/Y shape is used for both rows).
\<close>

theorem exportCSV_every_record_counterexample:
  "fst (exportCSV numberToString [] None) \<noteq> exportCSV_spec numberToString [] \<and>
   fst (exportCSV numberToString [ScatterData 1 2 None None, ChartData ''a'' 3 None] None) \<noteq>
     exportCSV_spec numberToString [ScatterData 1 2 None None, ChartData ''a'' 3 None]"
proof
  show "fst (exportCSV numberToString [] None) \<noteq> exportCSV_spec numberToString []"
    by (simp add: exportCSV_def exportCSV_spec_def scatter_header_def)
next
  show "fst (exportCSV numberToString [ScatterData 1 2 None None, ChartData ''a'' 3 None] None) \<noteq>
     exportCSV_spec numberToString [ScatterData 1 2 None None, ChartData ''a'' 3 None]"
    by (simp add: exportCSV_Cons exportCSV_spec_def ScatterData_def ChartData_def
          has_x_def scatter_header_def chart_header_def)
qed

lemma exportCSV_same_shape:
  assumes "data \<noteq> []" and "list_all has_x data \<or> list_all (\<lambda>d. \<not> has_x d) data"
  shows "fst (exportCSV str data filename) = exportCSV_spec str data"
proof (cases data)
  case Nil
  with assms(1) show ?thesis by simp
next
  case (Cons d ds)
  with assms(2) show ?thesis
    by (auto simp: exportCSV_Cons exportCSV_spec_def)
qed

text \<open>
  Claim C3, amended: for a non-empty array the shape is chosen by whether the first
  record carries \<open>x\<close>.  If it does, the text is the header \<open>X,Y,Label,Color\<close> and one
  X,Y,Label,Color row per record; otherwise it is the header \<open>Label,Value,Color\<close> and one
  Label,Value,Color row per record.  (By \<open>exportCSV_same_shape\<close> this is the rule of
  the specification on a non-empty array whose records all have the same shape.)
\<close>

theorem exportCSV_shape_by_first_record:
  "data \<noteq> [] \<Longrightarrow>
   fst (exportCSV str data filename) =
     (if has_x (hd data)
      then scatter_header @ concat (map (scatter_row str) data)
      else chart_header @ concat (map (chart_row str) data))"
proof (cases data)
  case Nil
  assume "data \<noteq> []"
  with Nil show ?thesis by simp
next
  case (Cons d ds)
  show ?thesis
    unfolding Cons by (simp only: exportCSV_Cons list.sel)
qed

theorem exportCSV_shape_by_first_record_witness:
  "[ScatterData 1 2 (Some ''p'') (Some ''#fff''), ChartData ''a'' 3 None] \<noteq> ([] :: int datum list) \<and>
   fst (exportCSV numberToString
          [ScatterData 1 2 (Some ''p'') (Some ''#fff''), ChartData ''a'' 3 None] None) =
     ''X,Y,Label,Color'' @ [CHR 0x0A] @ ''1,2,p,#fff'' @ [CHR 0x0A] @
     ''undefined,undefined,a,'' @ [CHR 0x0A]"
  using exportCSV_shape_by_first_record
          [of "[ScatterData 1 2 (Some ''p'') (Some ''#fff''), ChartData ''a'' 3 None]"
              numberToString None]
  by (simp add: ScatterData_def ChartData_def has_x_def scatter_row_def scatter_header_def
        interp_num_def or_empty_def numberToString_def nat_digits.simps digit_char_def
        newline_def)

text \<open>
  Claim C10.  On the empty array \<open>exportCSV\<close> returns the empty string, with no header
  line, and triggers no download, whatever file name is passed.
\<close>

theorem exportCSV_empty:
  "exportCSV str [] filename = ([], [])"
  by (simp add: exportCSV_def)

section \<open>Properties of the scatter plot's trend line\<close>

lemma foldl_add_sum_list:
  "foldl (\<lambda>sum d. sum + f d) a ds = a + (\<Sum>d\<leftarrow>ds. (f d :: real))"
  by (induction ds arbitrary: a) simp_all

lemma slope_linearRegression:
  "slope (linearRegression data) =
     jsdiv (real (length data) * (\<Sum>d\<leftarrow>data. pt_x d * pt_y d) -
              (\<Sum>d\<leftarrow>data. pt_x d) * (\<Sum>d\<leftarrow>data. pt_y d))
           (real (length data) * (\<Sum>d\<leftarrow>data. pt_x d * pt_x d) -
              (\<Sum>d\<leftarrow>data. pt_x d) * (\<Sum>d\<leftarrow>data. pt_x d))"
  by (simp add: linearRegression_def Let_def foldl_add_sum_list)

lemma intercept_linearRegression:
  "intercept (linearRegression data) =
     (case slope (linearRegression data) of
        None \<Rightarrow> None
      | Some m \<Rightarrow> jsdiv ((\<Sum>d\<leftarrow>data. pt_y d) - m * (\<Sum>d\<leftarrow>data. pt_x d))
                        (real (length data)))"
  by (simp add: linearRegression_def Let_def foldl_add_sum_list)

lemma foldl_min_Min: "foldl min v rest = Min (set (v # rest))" for v :: real
proof (induction rest arbitrary: v)
  case Nil show ?case by simp
next
  case (Cons a rest)
  have "foldl min v (a # rest) = Min (set (min v a # rest))" by (simp add: Cons.IH)
  also have "\<dots> = Min (set (v # a # rest))"
    by (cases "rest = []") (simp_all add: Min_insert2 min.assoc min.commute)
  finally show ?case .
qed

lemma foldl_max_Max: "foldl max v rest = Max (set (v # rest))" for v :: real
proof (induction rest arbitrary: v)
  case Nil show ?case by simp
next
  case (Cons a rest)
  have "foldl max v (a # rest) = Max (set (max v a # rest))" by (simp add: Cons.IH)
  also have "\<dots> = Max (set (v # a # rest))"
    by (cases "rest = []") (simp_all add: max.assoc max.commute)
  finally show ?case .
qed

lemma extent_Min_Max:
  "vs \<noteq> [] \<Longrightarrow> extent vs = Some (Min (set vs), Max (set vs))"
  by (cases vs) (simp_all add: extent_def foldl_min_Min foldl_max_Max del: set_simps)


lemma lineAt_linearRegression:
  assumes "data \<noteq> []"
  shows "lineAt (linearRegression data) x =
     map_option
       (\<lambda>sl. sl * x + ((\<Sum>d\<leftarrow>data. pt_y d) - sl * (\<Sum>d\<leftarrow>data. pt_x d)) / real (length data))
       (if real (length data) * (\<Sum>d\<leftarrow>data. (pt_x d)\<^sup>2) - (\<Sum>d\<leftarrow>data. pt_x d)\<^sup>2 = 0 then None
        else Some ((real (length data) * (\<Sum>d\<leftarrow>data. pt_x d * pt_y d) -
                      (\<Sum>d\<leftarrow>data. pt_x d) * (\<Sum>d\<leftarrow>data. pt_y d)) /
                   (real (length data) * (\<Sum>d\<leftarrow>data. (pt_x d)\<^sup>2) - (\<Sum>d\<leftarrow>data. pt_x d)\<^sup>2)))"
  using assms
  by (simp add: lineAt_def intercept_linearRegression slope_linearRegression jsdiv_def
        power2_eq_square)

lemma ScatterPlot_render_no_data:
  "sp_data s = [] \<Longrightarrow>
   ScatterPlot_render rnd s =
     Inr (s\<lparr>sp_console := sp_console s @ [ConsoleWarn ''No data available for scatter plot rendering'']\<rparr>)"
  by (simp add: ScatterPlot_render_def)

text \<open>
  Claim C2 at a single point.  With the trend line enabled (type \<open>linear\<close>), the grid
  shown and clustering off, rendering the one-point data set \<open>(1, 1)\<close> raises no error
  but appends a trend-line element after the point: \<open>renderTrendLine\<close> has no guard
  on the number of points, its slope is the quotient \<open>0 / 0\<close>, and both ordinates of
  the line are not finite numbers.  (On the empty data set the rendering returns at once:
  \<open>ScatterPlot_render_no_data\<close>.)
\<close>

theorem render_single_point_trend_line:
  "ScatterPlot_render rnd
     \<lparr>sp_data = [\<lparr>pt_x = 1, pt_y = 1, pt_label = None, pt_color = None\<rparr>],
      sp_options = \<lparr>opt_showGrid = True,
                     opt_trendLine = Some \<lparr>tl_enabled = True, tl_type = ''linear''\<rparr>,
                     opt_clustering = Some \<lparr>cl_enabled = False, cl_maxClusters = 5,
                                             cl_showClusterBoundaries = False\<rparr>\<rparr>,
      sp_chartGroup = [], sp_clusters = [], sp_console = []\<rparr> =
   Inr \<lparr>sp_data = [\<lparr>pt_x = 1, pt_y = 1, pt_label = None, pt_color = None\<rparr>],
        sp_options = \<lparr>opt_showGrid = True,
                       opt_trendLine = Some \<lparr>tl_enabled = True, tl_type = ''linear''\<rparr>,
                       opt_clustering = Some \<lparr>cl_enabled = False, cl_maxClusters = 5,
                                               cl_showClusterBoundaries = False\<rparr>\<rparr>,
        sp_chartGroup = [Grid, Grid, XAxis, YAxis, Point 1 1, TrendLine 1 None 1 None],
        sp_clusters = [], sp_console = []\<rparr>"
  by (simp add: ScatterPlot_render_def Let_def option_flag_def renderTrendLine_def extent_def
        linearRegression_def jsdiv_def lineAt_def)

text \<open>
  Claim C4.  For every data set of \<open>n \<ge> 2\<close> points (and the trend-line type
  \<open>linear\<close>) the slope of the trend line is the quotient of \<open>n\<cdot>\<Sigma>xy - \<Sigma>x\<cdot>\<Sigma>y\<close> by
  \<open>n\<cdot>\<Sigma>x\<^sup>2 - (\<Sigma>x)\<^sup>2\<close> (not a finite number when the divisor is zero), the intercept
  is \<open>(\<Sigma>y - slope\<cdot>\<Sigma>x) / n\<close>, the sums running over all the points, and the element
  that \<open>renderTrendLine\<close> appends is the line \<open>y = slope\<cdot>x + intercept\<close> between the
  least and the greatest abscissa of the data.  For the data \<open>(0,0), (1,1), (2,2)\<close>
  the slope is 1, the intercept is 0 and the line drawn runs from \<open>(0,0)\<close> to
  \<open>(2,2)\<close>.
\<close>

theorem trend_line_least_squares_formula:
  "(let data = sp_data s;
        n = real (length data);
        Sx = (\<Sum>d\<leftarrow>data. pt_x d);
        Sy = (\<Sum>d\<leftarrow>data. pt_y d);
        Sxy = (\<Sum>d\<leftarrow>data. pt_x d * pt_y d);
        Sxx = (\<Sum>d\<leftarrow>data. (pt_x d)\<^sup>2);
        m = (if n * Sxx - Sx\<^sup>2 = 0 then None
             else Some ((n * Sxy - Sx * Sy) / (n * Sxx - Sx\<^sup>2)));
        line = (\<lambda>x. map_option (\<lambda>sl. sl * x + (Sy - sl * Sx) / n) m);
        x0 = Min (set (map pt_x data));
        x1 = Max (set (map pt_x data))
    in 2 \<le> length data \<and> map_option tl_type (opt_trendLine (sp_options s)) = Some ''linear'' \<longrightarrow>
       slope (linearRegression data) = m \<and>
       intercept (linearRegression data) = map_option (\<lambda>sl. (Sy - sl * Sx) / n) m \<and>
       renderTrendLine s =
         s\<lparr>sp_chartGroup := sp_chartGroup s @ [TrendLine x0 (line x0) x1 (line x1)]\<rparr>) \<and>
   linearRegression
     [\<lparr>pt_x = 0, pt_y = 0, pt_label = None, pt_color = None\<rparr>,
      \<lparr>pt_x = 1, pt_y = 1, pt_label = None, pt_color = None\<rparr>,
      \<lparr>pt_x = 2, pt_y = 2, pt_label = None, pt_color = None\<rparr>] =
     \<lparr>slope = Some 1, intercept = Some 0\<rparr> \<and>
   sp_chartGroup (renderTrendLine
     \<lparr>sp_data = [\<lparr>pt_x = 0, pt_y = 0, pt_label = None, pt_color = None\<rparr>,
                 \<lparr>pt_x = 1, pt_y = 1, pt_label = None, pt_color = None\<rparr>,
                 \<lparr>pt_x = 2, pt_y = 2, pt_label = None, pt_color = None\<rparr>],
      sp_options = \<lparr>opt_showGrid = False,
                     opt_trendLine = Some \<lparr>tl_enabled = True, tl_type = ''linear''\<rparr>,
                     opt_clustering = None\<rparr>,
      sp_chartGroup = [], sp_clusters = [], sp_console = []\<rparr>) =
     [TrendLine 0 (Some 0) 2 (Some 2)]"
proof (intro conjI)
  show "let data = sp_data s;
        n = real (length data);
        Sx = (\<Sum>d\<leftarrow>data. pt_x d);
        Sy = (\<Sum>d\<leftarrow>data. pt_y d);
        Sxy = (\<Sum>d\<leftarrow>data. pt_x d * pt_y d);
        Sxx = (\<Sum>d\<leftarrow>data. (pt_x d)\<^sup>2);
        m = (if n * Sxx - Sx\<^sup>2 = 0 then None
             else Some ((n * Sxy - Sx * Sy) / (n * Sxx - Sx\<^sup>2)));
        line = (\<lambda>x. map_option (\<lambda>sl. sl * x + (Sy - sl * Sx) / n) m);
        x0 = Min (set (map pt_x data));
        x1 = Max (set (map pt_x data))
    in 2 \<le> length data \<and> map_option tl_type (opt_trendLine (sp_options s)) = Some ''linear'' \<longrightarrow>
       slope (linearRegression data) = m \<and>
       intercept (linearRegression data) = map_option (\<lambda>sl. (Sy - sl * Sx) / n) m \<and>
       renderTrendLine s =
         s\<lparr>sp_chartGroup := sp_chartGroup s @ [TrendLine x0 (line x0) x1 (line x1)]\<rparr>"
    unfolding Let_def
  proof (intro impI, elim conjE)
    let ?data = "sp_data s"
    assume len: "2 \<le> length ?data"
      and lin: "map_option tl_type (opt_trendLine (sp_options s)) = Some ''linear''"
    from len have ne: "?data \<noteq> []" and n: "real (length ?data) \<noteq> 0" by auto
    let ?m = "if real (length ?data) * (\<Sum>d\<leftarrow>?data. (pt_x d)\<^sup>2) - (\<Sum>d\<leftarrow>?data. pt_x d)\<^sup>2 = 0
        then None
        else Some ((real (length ?data) * (\<Sum>d\<leftarrow>?data. pt_x d * pt_y d) -
                      (\<Sum>d\<leftarrow>?data. pt_x d) * (\<Sum>d\<leftarrow>?data. pt_y d)) /
                   (real (length ?data) * (\<Sum>d\<leftarrow>?data. (pt_x d)\<^sup>2) - (\<Sum>d\<leftarrow>?data. pt_x d)\<^sup>2))"
    have sl: "slope (linearRegression ?data) = ?m"
      by (simp add: slope_linearRegression jsdiv_def power2_eq_square)
    have ic: "intercept (linearRegression ?data) =
        map_option (\<lambda>sl. ((\<Sum>d\<leftarrow>?data. pt_y d) - sl * (\<Sum>d\<leftarrow>?data. pt_x d)) / real (length ?data)) ?m"
      unfolding intercept_linearRegression [of ?data] sl using n
      by (simp add: jsdiv_def)
    have ex: "extent (map pt_x ?data) =
        Some (Min (set (map pt_x ?data)), Max (set (map pt_x ?data)))"
      using ne by (intro extent_Min_Max) simp
    have rt: "renderTrendLine s =
        s\<lparr>sp_chartGroup := sp_chartGroup s @
            [TrendLine (Min (set (map pt_x ?data)))
               (lineAt (linearRegression ?data) (Min (set (map pt_x ?data))))
               (Max (set (map pt_x ?data)))
               (lineAt (linearRegression ?data) (Max (set (map pt_x ?data))))]\<rparr>"
      using lin by (simp add: renderTrendLine_def Let_def ex)
    show "slope (linearRegression ?data) = ?m \<and>
       intercept (linearRegression ?data) =
         map_option (\<lambda>sl. ((\<Sum>d\<leftarrow>?data. pt_y d) - sl * (\<Sum>d\<leftarrow>?data. pt_x d)) / real (length ?data)) ?m \<and>
       renderTrendLine s =
         s\<lparr>sp_chartGroup := sp_chartGroup s @
            [TrendLine (Min (set (map pt_x ?data)))
               (map_option (\<lambda>sl. sl * Min (set (map pt_x ?data)) +
                    ((\<Sum>d\<leftarrow>?data. pt_y d) - sl * (\<Sum>d\<leftarrow>?data. pt_x d)) / real (length ?data)) ?m)
               (Max (set (map pt_x ?data)))
               (map_option (\<lambda>sl. sl * Max (set (map pt_x ?data)) +
                    ((\<Sum>d\<leftarrow>?data. pt_y d) - sl * (\<Sum>d\<leftarrow>?data. pt_x d)) / real (length ?data)) ?m)]\<rparr>"
      unfolding rt lineAt_linearRegression [OF ne] using sl ic by simp
  qed
next
  show "linearRegression
     [\<lparr>pt_x = 0, pt_y = 0, pt_label = None, pt_color = None\<rparr>,
      \<lparr>pt_x = 1, pt_y = 1, pt_label = None, pt_color = None\<rparr>,
      \<lparr>pt_x = 2, pt_y = 2, pt_label = None, pt_color = None\<rparr>] =
     \<lparr>slope = Some 1, intercept = Some 0\<rparr>"
    by (simp add: linearRegression_def jsdiv_def Let_def)
next
  show "sp_chartGroup (renderTrendLine
     \<lparr>sp_data = [\<lparr>pt_x = 0, pt_y = 0, pt_label = None, pt_color = None\<rparr>,
                 \<lparr>pt_x = 1, pt_y = 1, pt_label = None, pt_color = None\<rparr>,
                 \<lparr>pt_x = 2, pt_y = 2, pt_label = None, pt_color = None\<rparr>],
      sp_options = \<lparr>opt_showGrid = False,
                     opt_trendLine = Some \<lparr>tl_enabled = True, tl_type = ''linear''\<rparr>,
                     opt_clustering = None\<rparr>,
      sp_chartGroup = [], sp_clusters = [], sp_console = []\<rparr>) =
     [TrendLine 0 (Some 0) 2 (Some 2)]"
    by (simp add: renderTrendLine_def extent_def linearRegression_def jsdiv_def lineAt_def
          Let_def)
qed

theorem trend_line_least_squares_formula_witness:
  "2 \<le> length [\<lparr>pt_x = 0, pt_y = 1, pt_label = None, pt_color = None\<rparr>,
                 \<lparr>pt_x = 2, pt_y = 5, pt_label = None, pt_color = None\<rparr>] \<and>
   linearRegression
     [\<lparr>pt_x = 0, pt_y = 1, pt_label = None, pt_color = None\<rparr>,
      \<lparr>pt_x = 2, pt_y = 5, pt_label = None, pt_color = None\<rparr>] =
     \<lparr>slope = Some 2, intercept = Some 1\<rparr> \<and>
   renderTrendLine
     \<lparr>sp_data = [\<lparr>pt_x = 0, pt_y = 1, pt_label = None, pt_color = None\<rparr>,
                 \<lparr>pt_x = 2, pt_y = 5, pt_label = None, pt_color = None\<rparr>],
      sp_options = \<lparr>opt_showGrid = False,
                     opt_trendLine = Some \<lparr>tl_enabled = True, tl_type = ''linear''\<rparr>,
                     opt_clustering = None\<rparr>,
      sp_chartGroup = [XAxis, YAxis], sp_clusters = [], sp_console = []\<rparr> =
     \<lparr>sp_data = [\<lparr>pt_x = 0, pt_y = 1, pt_label = None, pt_color = None\<rparr>,
                 \<lparr>pt_x = 2, pt_y = 5, pt_label = None, pt_color = None\<rparr>],
      sp_options = \<lparr>opt_showGrid = False,
                     opt_trendLine = Some \<lparr>tl_enabled = True, tl_type = ''linear''\<rparr>,
                     opt_clustering = None\<rparr>,
      sp_chartGroup = [XAxis, YAxis, TrendLine 0 (Some 1) 2 (Some 5)],
      sp_clusters = [], sp_console = []\<rparr>"
proof -
  let ?d = "[\<lparr>pt_x = 0, pt_y = 1, pt_label = None, pt_color = None\<rparr>,
             \<lparr>pt_x = 2, pt_y = 5, pt_label = None, pt_color = None\<rparr>]"
  let ?s = "\<lparr>sp_data = ?d,
      sp_options = \<lparr>opt_showGrid = False,
                     opt_trendLine = Some \<lparr>tl_enabled = True, tl_type = ''linear''\<rparr>,
                     opt_clustering = None\<rparr>,
      sp_chartGroup = [XAxis, YAxis], sp_clusters = [], sp_console = []\<rparr>"
  have len: "2 \<le> length (sp_data ?s)" by simp
  have lin: "map_option tl_type (opt_trendLine (sp_options ?s)) = Some ''linear''" by simp
  from trend_line_least_squares_formula [of ?s] len lin
  have sl: "slope (linearRegression ?d) = Some 2"
    and ic: "intercept (linearRegression ?d) = Some 1"
    and rt: "renderTrendLine ?s =
       ?s\<lparr>sp_chartGroup := [XAxis, YAxis, TrendLine 0 (Some 1) 2 (Some 5)]\<rparr>"
    by (simp_all add: Let_def)
  have "linearRegression ?d = \<lparr>slope = Some 2, intercept = Some 1\<rparr>"
    using sl ic by (cases "linearRegression ?d") simp
  with len rt show ?thesis by simp
qed

section \<open>Properties of the scatter plot's clustering\<close>










lemma kmeans_round_length:
  "length (fst (kmeans_round points k st)) = k"
  by (cases st) (simp add: kmeans_round_def Let_def assign_nearest_def)






lemma pushIndex_error: "foldl (pushIndex cs) (Inl e) ips = Inl e"
  by (induction ips) (simp_all add: pushIndex_def)

lemma assignPoints_no_clusters:
  "points \<noteq> [] \<Longrightarrow>
   assignPoints 0 [] points =
     Inl (TypeError ''Cannot read properties of undefined (reading push)'')"
  by (cases points) (simp_all add: assignPoints_def pushIndex_def pushIndex_error)




section \<open>Properties of the pie chart\<close>

text \<open>
  Claim C9, as stated: a non-empty data set whose total is at most 0 leaves the chart
  group empty.  The check comes before the group is cleared, so a chart that shows one
  slice and is then updated with a zero total keeps the slice and its label.
\<close>

theorem PieChart_zero_total_counterexample:
  "PieChart_constructor [\<lparr>cp_label = ''a'', cp_value = 1, cp_color = None\<rparr>]
     \<lparr>po_labels = Some True, po_legend = True\<rparr> =
   Inr \<lparr>pie_data = [\<lparr>cp_label = ''a'', cp_value = 1, cp_color = None\<rparr>],
        pie_options = \<lparr>po_labels = Some True, po_legend = True\<rparr>,
        pie_chartGroup = [Slice 0, Label 0], pie_legendGroup = [LegendItem 0],
        pie_explodedSlices = [], pie_console = []\<rparr> \<and>
   pie_chartGroup
     (PieChart_update [\<lparr>cp_label = ''a'', cp_value = 0, cp_color = None\<rparr>]
        \<lparr>pie_data = [\<lparr>cp_label = ''a'', cp_value = 1, cp_color = None\<rparr>],
         pie_options = \<lparr>po_labels = Some True, po_legend = True\<rparr>,
         pie_chartGroup = [Slice 0, Label 0], pie_legendGroup = [LegendItem 0],
         pie_explodedSlices = [], pie_console = []\<rparr>) = [Slice 0, Label 0] \<and>
   [Slice 0, Label 0] \<noteq> []"
  by (simp add: PieChart_constructor_def PieChart_update_def PieChart_render_def Let_def)

text \<open>
  Claim C9, amended: for every non-empty data set whose values sum to a total of at
  most 0, rendering does not throw; it emits one error diagnostic and renders nothing:
  the chart group and the legend group are left exactly as they were.  They are empty
  when the rendering is the first one, made by the constructor.
\<close>

theorem PieChart_zero_total_renders_nothing:
  assumes "pie_data s \<noteq> []" and "(\<Sum>d\<leftarrow>pie_data s. cp_value d) \<le> 0"
  shows "PieChart_render s =
           s\<lparr>pie_console := pie_console s @
               [ConsoleError ''Total value is zero or negative, cannot render pie chart'']\<rparr> \<and>
         pie_chartGroup (PieChart_render s) = pie_chartGroup s \<and>
         pie_legendGroup (PieChart_render s) = pie_legendGroup s \<and>
         (\<exists>s'. PieChart_constructor (pie_data s) opts = Inr s' \<and>
               pie_chartGroup s' = [] \<and> pie_legendGroup s' = [] \<and>
               pie_console s' =
                 [ConsoleError ''Total value is zero or negative, cannot render pie chart''])"
proof -
  have total: "foldl (\<lambda>sum d. sum + cp_value d) 0 (pie_data s) \<le> 0"
    using assms(2) by (simp add: foldl_add_sum_list)
  have r: "PieChart_render s =
           s\<lparr>pie_console := pie_console s @
               [ConsoleError ''Total value is zero or negative, cannot render pie chart'']\<rparr>"
    using assms(1) total by (simp add: PieChart_render_def Let_def)
  have c: "PieChart_constructor (pie_data s) opts =
      Inr \<lparr>pie_data = pie_data s, pie_options = opts, pie_chartGroup = [],
           pie_legendGroup = [], pie_explodedSlices = [],
           pie_console = [ConsoleError ''Total value is zero or negative, cannot render pie chart'']\<rparr>"
    using assms(1) total by (simp add: PieChart_constructor_def PieChart_render_def Let_def)
  show ?thesis unfolding c by (simp add: r)
qed

theorem PieChart_zero_total_renders_nothing_witness:
  "PieChart_render
     \<lparr>pie_data = [\<lparr>cp_label = ''a'', cp_value = 2, cp_color = None\<rparr>,
                  \<lparr>cp_label = ''b'', cp_value = - 2, cp_color = None\<rparr>],
      pie_options = \<lparr>po_labels = Some True, po_legend = True\<rparr>,
      pie_chartGroup = [Slice 0], pie_legendGroup = [], pie_explodedSlices = [],
      pie_console = []\<rparr> =
   \<lparr>pie_data = [\<lparr>cp_label = ''a'', cp_value = 2, cp_color = None\<rparr>,
                \<lparr>cp_label = ''b'', cp_value = - 2, cp_color = None\<rparr>],
    pie_options = \<lparr>po_labels = Some True, po_legend = True\<rparr>,
    pie_chartGroup = [Slice 0], pie_legendGroup = [], pie_explodedSlices = [],
    pie_console = [ConsoleError ''Total value is zero or negative, cannot render pie chart'']\<rparr>"
  using PieChart_zero_total_renders_nothing
    [of "\<lparr>pie_data = [\<lparr>cp_label = ''a'', cp_value = 2, cp_color = None\<rparr>,
                  \<lparr>cp_label = ''b'', cp_value = - 2, cp_color = None\<rparr>],
      pie_options = \<lparr>po_labels = Some True, po_legend = True\<rparr>,
      pie_chartGroup = [Slice 0], pie_legendGroup = [], pie_explodedSlices = [],
      pie_console = []\<rparr>"]
  by simp

section \<open>Properties of the SVG, PNG and PDF export\<close>

lemma fitToCanvas_Some:
  assumes "rectW \<noteq> 0" and "rectH \<noteq> 0"
  shows "fitToCanvas width height rectW rectH =
     Some \<lparr>scale = min (width / rectW) (height / rectH),
            offsetX = (width - rectW * min (width / rectW) (height / rectH)) / 2,
            offsetY = (height - rectH * min (width / rectW) (height / rectH)) / 2,
            scaledWidth = rectW * min (width / rectW) (height / rectH),
            scaledHeight = rectH * min (width / rectW) (height / rectH)\<rparr>"
  using assms by (simp add: fitToCanvas_def Let_def)

lemma exportPNG_ok:
  assumes "canvas_context b" and "svg_element b = Some v"
      and "svg_image_loads b" and "to_blob_ok b"
  shows "exportPNG b config =
     Inr \<lparr>canvas_width = default_to 800 (cfg_width config),
          canvas_height = default_to 600 (cfg_height config),
          fillStyle = default_to ''white'' (cfg_backgroundColor config),
          drawImage = fitToCanvas (default_to 800 (cfg_width config))
                        (default_to 600 (cfg_height config)) (rect_width v) (rect_height v),
          png_quality = default_to (9 / 10) (cfg_quality config)\<rparr>"
  using assms by (simp add: exportPNG_def Let_def)

lemma exportPNG_no_svg:
  assumes "svg_element b = None"
  shows "exportPNG b config =
     Inl (Error (if canvas_context b then ''No SVG element found in container''
                 else ''Canvas context not available''))"
  using assms by (simp add: exportPNG_def Let_def)

text \<open>
  A vector root with one side of length zero still gives finite numbers (an image of
  width or height zero); with both sides zero nothing finite is left.
\<close>

lemma fitToCanvas_zero_width:
  "fitToCanvas 800 600 0 150 =
     Some \<lparr>scale = 4, offsetX = 400, offsetY = 0, scaledWidth = 0, scaledHeight = 600\<rparr>"
  by (simp add: fitToCanvas_def Let_def)

lemma fitToCanvas_zero_both: "fitToCanvas 800 600 0 0 = None"
  by (simp add: fitToCanvas_def Let_def)

lemma fitToPage_zero_height:
  "fitToPage 297 210 800 0 =
     Some \<lparr>img_x = 10, img_y = 105, imgWidth = 277, imgHeight = 0\<rparr>"
  by (simp add: fitToPage_def Let_def)

text \<open>
  Claim C6.  When the PNG export succeeds on a vector root of size \<open>W0 \<times> H0\<close>, both
  non-zero, with target size \<open>W \<times> H\<close>: the image is drawn at the uniform scale
  \<open>min (W / W0) (H / H0)\<close>, into a rectangle of size \<open>W0 * scale\<close> by \<open>H0 * scale\<close> at
  the offsets \<open>(W - W0 * scale) / 2\<close> and \<open>(H - H0 * scale) / 2\<close>, which leaves equal
  margins on both sides of each axis (the image is centred).  \<open>W\<close> and \<open>H\<close> are the
  requested width and height, 800 and 600 when absent, and the background is the
  requested colour, white when absent.
\<close>

theorem exportPNG_scale_and_centering:
  assumes "canvas_context b" and "svg_image_loads b" and "to_blob_ok b"
      and "svg_element b = Some v" and "rect_width v \<noteq> 0" and "rect_height v \<noteq> 0"
  shows "\<exists>blob p. exportPNG b config = Inr blob \<and> drawImage blob = Some p \<and>
     canvas_width blob = (case cfg_width config of None \<Rightarrow> 800 | Some w \<Rightarrow> w) \<and>
     canvas_height blob = (case cfg_height config of None \<Rightarrow> 600 | Some h \<Rightarrow> h) \<and>
     fillStyle blob = (case cfg_backgroundColor config of None \<Rightarrow> ''white'' | Some c \<Rightarrow> c) \<and>
     scale p = min (canvas_width blob / rect_width v) (canvas_height blob / rect_height v) \<and>
     scaledWidth p = rect_width v * scale p \<and>
     scaledHeight p = rect_height v * scale p \<and>
     offsetX p = (canvas_width blob - rect_width v * scale p) / 2 \<and>
     offsetY p = (canvas_height blob - rect_height v * scale p) / 2 \<and>
     offsetX p + scaledWidth p + offsetX p = canvas_width blob \<and>
     offsetY p + scaledHeight p + offsetY p = canvas_height blob"
proof -
  let ?W = "default_to 800 (cfg_width config)"
  let ?H = "default_to 600 (cfg_height config)"
  have png: "exportPNG b config =
     Inr \<lparr>canvas_width = ?W, canvas_height = ?H,
          fillStyle = default_to ''white'' (cfg_backgroundColor config),
          drawImage = fitToCanvas ?W ?H (rect_width v) (rect_height v),
          png_quality = default_to (9 / 10) (cfg_quality config)\<rparr>"
    using assms(1,4,2,3) by (rule exportPNG_ok)
  have fit: "fitToCanvas ?W ?H (rect_width v) (rect_height v) =
     Some \<lparr>scale = min (?W / rect_width v) (?H / rect_height v),
            offsetX = (?W - rect_width v * min (?W / rect_width v) (?H / rect_height v)) / 2,
            offsetY = (?H - rect_height v * min (?W / rect_width v) (?H / rect_height v)) / 2,
            scaledWidth = rect_width v * min (?W / rect_width v) (?H / rect_height v),
            scaledHeight = rect_height v * min (?W / rect_width v) (?H / rect_height v)\<rparr>"
    using assms(5,6) by (rule fitToCanvas_Some)
  show ?thesis
    unfolding png fit by (simp add: default_to_def field_simps)
qed

theorem exportPNG_scale_and_centering_witness:
  "exportPNG \<lparr>canvas_context = True,
              svg_element = Some \<lparr>svg_children = [], rect_width = 400, rect_height = 150\<rparr>,
              svg_image_loads = True, to_blob_ok = True, jsPDF_defined = False,
              png_image_loads = False, page_width = 297, page_height = 210\<rparr>
     \<lparr>cfg_width = None, cfg_height = None, cfg_backgroundColor = None, cfg_quality = None,
      cfg_includeStyles = None, cfg_title = None, cfg_author = None, cfg_subject = None\<rparr> =
   Inr \<lparr>canvas_width = 800, canvas_height = 600, fillStyle = ''white'',
        drawImage = Some \<lparr>scale = 2, offsetX = 0, offsetY = 150,
                           scaledWidth = 800, scaledHeight = 300\<rparr>,
        png_quality = 9 / 10\<rparr>"
proof -
  let ?v = "\<lparr>svg_children = [], rect_width = 400, rect_height = 150\<rparr>"
  let ?b = "\<lparr>canvas_context = True, svg_element = Some ?v,
              svg_image_loads = True, to_blob_ok = True, jsPDF_defined = False,
              png_image_loads = False, page_width = 297, page_height = 210\<rparr>"
  let ?c = "\<lparr>cfg_width = None, cfg_height = None, cfg_backgroundColor = None,
              cfg_quality = None, cfg_includeStyles = None, cfg_title = None,
              cfg_author = None, cfg_subject = None\<rparr>"
  obtain blob p where r: "exportPNG ?b ?c = Inr blob" "drawImage blob = Some p"
      "canvas_width blob = 800" "canvas_height blob = 600" "fillStyle blob = ''white''"
      "scale p = min (canvas_width blob / 400) (canvas_height blob / 150)"
      "scaledWidth p = 400 * scale p" "scaledHeight p = 150 * scale p"
      "offsetX p = (canvas_width blob - 400 * scale p) / 2"
      "offsetY p = (canvas_height blob - 150 * scale p) / 2"
    using exportPNG_scale_and_centering [of ?b ?v ?c] by auto
  have q: "png_quality blob = 9 / 10"
    using r(1) by (auto simp: exportPNG_def Let_def default_to_def)
  have "scale p = 2" using r(3,4,6) by simp
  with r q have "blob = \<lparr>canvas_width = 800, canvas_height = 600, fillStyle = ''white'',
        drawImage = Some \<lparr>scale = 2, offsetX = 0, offsetY = 150,
                           scaledWidth = 800, scaledHeight = 300\<rparr>,
        png_quality = 9 / 10\<rparr>"
    by (cases blob, cases p) simp
  with r(1) show ?thesis by simp
qed

text \<open>
  Claim C7, as stated: every export on a container without a vector root fails with
  the error \<open>No SVG element found in container\<close>.  \<open>exportPNG\<close> checks the canvas
  context first and \<open>exportPDF\<close> checks for jsPDF first, so on such a container they
  fail with those errors instead when the context or the library is missing.
\<close>

theorem export_no_svg_error_counterexample:
  "exportPNG \<lparr>canvas_context = False, svg_element = None, svg_image_loads = True,
              to_blob_ok = True, jsPDF_defined = True, png_image_loads = True,
              page_width = 297, page_height = 210\<rparr>
     \<lparr>cfg_width = None, cfg_height = None, cfg_backgroundColor = None, cfg_quality = None,
      cfg_includeStyles = None, cfg_title = None, cfg_author = None, cfg_subject = None\<rparr>
     = Inl (Error ''Canvas context not available'') \<and>
   Error ''Canvas context not available'' \<noteq> Error ''No SVG element found in container'' \<and>
   exportPDF \<lparr>canvas_context = True, svg_element = None, svg_image_loads = True,
              to_blob_ok = True, jsPDF_defined = False, png_image_loads = True,
              page_width = 297, page_height = 210\<rparr>
     \<lparr>cfg_width = None, cfg_height = None, cfg_backgroundColor = None, cfg_quality = None,
      cfg_includeStyles = None, cfg_title = None, cfg_author = None, cfg_subject = None\<rparr>
     = Inl (Error ''jsPDF library not found. Please include jsPDF in your project.'') \<and>
   Error ''jsPDF library not found. Please include jsPDF in your project.'' \<noteq>
     Error ''No SVG element found in container''"
  by (simp add: exportPNG_def exportPDF_def Let_def)

text \<open>
  Claim C7, amended: on a container without a vector root every export fails and none
  returns a serialisation or a blob.  \<open>exportSVG\<close> fails with
  \<open>No SVG element found in container\<close>; \<open>exportPNG\<close> fails with that error when a 2D
  canvas context is available and with \<open>Canvas context not available\<close> otherwise;
  \<open>exportPDF\<close> fails with the jsPDF error when jsPDF is not defined and otherwise
  as \<open>exportPNG\<close> does.
\<close>

theorem export_without_svg_fails:
  assumes "svg_element b = None"
  shows "exportSVG serializeToString b c1 = Inl (Error ''No SVG element found in container'') \<and>
     exportPNG b c2 =
       Inl (Error (if canvas_context b then ''No SVG element found in container''
                   else ''Canvas context not available'')) \<and>
     exportPDF b c3 =
       Inl (Error (if \<not> jsPDF_defined b
                   then ''jsPDF library not found. Please include jsPDF in your project.''
                   else if canvas_context b then ''No SVG element found in container''
                   else ''Canvas context not available''))"
proof (intro conjI)
  show "exportSVG serializeToString b c1 = Inl (Error ''No SVG element found in container'')"
    using assms by (simp add: exportSVG_def Let_def)
  show "exportPNG b c2 =
       Inl (Error (if canvas_context b then ''No SVG element found in container''
                   else ''Canvas context not available''))"
    using assms by (rule exportPNG_no_svg)
  show "exportPDF b c3 =
       Inl (Error (if \<not> jsPDF_defined b
                   then ''jsPDF library not found. Please include jsPDF in your project.''
                   else if canvas_context b then ''No SVG element found in container''
                   else ''Canvas context not available''))"
    using assms by (simp add: exportPDF_def Let_def exportPNG_no_svg)
qed

theorem export_without_svg_fails_witness:
  "exportSVG (\<lambda>v. ''<svg/>'')
     \<lparr>canvas_context = True, svg_element = None, svg_image_loads = True,
      to_blob_ok = True, jsPDF_defined = True, png_image_loads = True,
      page_width = 297, page_height = 210\<rparr>
     \<lparr>cfg_width = None, cfg_height = None, cfg_backgroundColor = None, cfg_quality = None,
      cfg_includeStyles = None, cfg_title = None, cfg_author = None, cfg_subject = None\<rparr>
     = Inl (Error ''No SVG element found in container'') \<and>
   exportPNG
     \<lparr>canvas_context = True, svg_element = None, svg_image_loads = True,
      to_blob_ok = True, jsPDF_defined = True, png_image_loads = True,
      page_width = 297, page_height = 210\<rparr>
     \<lparr>cfg_width = None, cfg_height = None, cfg_backgroundColor = None, cfg_quality = None,
      cfg_includeStyles = None, cfg_title = None, cfg_author = None, cfg_subject = None\<rparr>
     = Inl (Error ''No SVG element found in container'') \<and>
   exportPDF
     \<lparr>canvas_context = True, svg_element = None, svg_image_loads = True,
      to_blob_ok = True, jsPDF_defined = True, png_image_loads = True,
      page_width = 297, page_height = 210\<rparr>
     \<lparr>cfg_width = None, cfg_height = None, cfg_backgroundColor = None, cfg_quality = None,
      cfg_includeStyles = None, cfg_title = None, cfg_author = None, cfg_subject = None\<rparr>
     = Inl (Error ''No SVG element found in container'')"
  using export_without_svg_fails
    [of "\<lparr>canvas_context = True, svg_element = None, svg_image_loads = True,
      to_blob_ok = True, jsPDF_defined = True, png_image_loads = True,
      page_width = 297, page_height = 210\<rparr>" "\<lambda>v. ''<svg/>''"]
  by simp

text \<open>
  Claim C8, as stated: title, author and subject of the PDF are the fields of the
  request, the product name standing in for an omitted field.  On a request that omits
  title and author and asks for the subject \<open>Quarterly report\<close> the export succeeds
  with title \<open>Chart Export\<close>, author \<open>Synerity Charts\<close> and subject \<open>Chart Export\<close>:
  the two defaults differ from each other, and the subject is not the requested one.
\<close>

theorem exportPDF_metadata_counterexample:
  "exportPDF
     \<lparr>canvas_context = True,
      svg_element = Some \<lparr>svg_children = [], rect_width = 600, rect_height = 400\<rparr>,
      svg_image_loads = True, to_blob_ok = True, jsPDF_defined = True,
      png_image_loads = True, page_width = 297, page_height = 210\<rparr>
     \<lparr>cfg_width = None, cfg_height = None, cfg_backgroundColor = None, cfg_quality = None,
      cfg_includeStyles = None, cfg_title = None, cfg_author = None,
      cfg_subject = Some ''Quarterly report''\<rparr> =
   Inr \<lparr>pdf_props = \<lparr>pdf_title = ''Chart Export'', pdf_author = ''Synerity Charts'',
                      pdf_subject = ''Chart Export'', pdf_creator = ''Synerity Charts''\<rparr>,
        pdf_image = Some \<lparr>img_x = 131 / 6, img_y = 10, imgWidth = 760 / 3, imgHeight = 190\<rparr>\<rparr> \<and>
   pdf_properties_spec
     \<lparr>cfg_width = None, cfg_height = None, cfg_backgroundColor = None, cfg_quality = None,
      cfg_includeStyles = None, cfg_title = None, cfg_author = None,
      cfg_subject = Some ''Quarterly report''\<rparr> =
   (''Synerity Charts'', ''Synerity Charts'', ''Quarterly report'') \<and>
   ''Chart Export'' \<noteq> ''Synerity Charts'' \<and> ''Chart Export'' \<noteq> ''Quarterly report''"
  by (simp add: exportPDF_def exportPNG_def fitToPage_def fitToCanvas_def Let_def
        default_to_def pdf_properties_spec_def productName_def)

text \<open>
  Claim C8, amended: for every successful \<open>exportPDF\<close> call the title and the author
  of the PDF are the title and the author of the request; an omitted title is
  \<open>Chart Export\<close> and an omitted author is \<open>Synerity Charts\<close>.
\<close>

theorem exportPDF_title_author:
  assumes "exportPDF b config = Inr pdf"
  shows "pdf_title (pdf_props pdf) =
           (case cfg_title config of None \<Rightarrow> ''Chart Export'' | Some t \<Rightarrow> t) \<and>
         pdf_author (pdf_props pdf) =
           (case cfg_author config of None \<Rightarrow> ''Synerity Charts'' | Some a \<Rightarrow> a)"
  using assms
  by (auto simp: exportPDF_def Let_def default_to_def split: if_splits sum.splits)

theorem exportPDF_title_author_witness:
  "pdf_title (pdf_props
     \<lparr>pdf_props = \<lparr>pdf_title = ''Test Chart'', pdf_author = ''Synerity Charts'',
                     pdf_subject = ''Chart Export'', pdf_creator = ''Synerity Charts''\<rparr>,
      pdf_image = Some \<lparr>img_x = 131 / 6, img_y = 10, imgWidth = 760 / 3, imgHeight = 190\<rparr>\<rparr>) =
     ''Test Chart'' \<and>
   exportPDF
     \<lparr>canvas_context = True,
      svg_element = Some \<lparr>svg_children = [], rect_width = 600, rect_height = 400\<rparr>,
      svg_image_loads = True, to_blob_ok = True, jsPDF_defined = True,
      png_image_loads = True, page_width = 297, page_height = 210\<rparr>
     \<lparr>cfg_width = None, cfg_height = None, cfg_backgroundColor = None, cfg_quality = None,
      cfg_includeStyles = None, cfg_title = Some ''Test Chart'', cfg_author = None,
      cfg_subject = None\<rparr> =
   Inr \<lparr>pdf_props = \<lparr>pdf_title = ''Test Chart'', pdf_author = ''Synerity Charts'',
                      pdf_subject = ''Chart Export'', pdf_creator = ''Synerity Charts''\<rparr>,
        pdf_image = Some \<lparr>img_x = 131 / 6, img_y = 10, imgWidth = 760 / 3, imgHeight = 190\<rparr>\<rparr>"
proof -
  let ?b = "\<lparr>canvas_context = True,
      svg_element = Some \<lparr>svg_children = [], rect_width = 600, rect_height = 400\<rparr>,
      svg_image_loads = True, to_blob_ok = True, jsPDF_defined = True,
      png_image_loads = True, page_width = 297, page_height = 210\<rparr>"
  let ?c = "\<lparr>cfg_width = None, cfg_height = None, cfg_backgroundColor = None,
      cfg_quality = None, cfg_includeStyles = None, cfg_title = Some ''Test Chart'',
      cfg_author = None, cfg_subject = None\<rparr>"
  let ?pdf = "\<lparr>pdf_props = \<lparr>pdf_title = ''Test Chart'', pdf_author = ''Synerity Charts'',
                     pdf_subject = ''Chart Export'', pdf_creator = ''Synerity Charts''\<rparr>,
      pdf_image = Some \<lparr>img_x = 131 / 6, img_y = 10, imgWidth = 760 / 3, imgHeight = 190\<rparr>\<rparr>"
  have run: "exportPDF ?b ?c = Inr ?pdf"
    by (simp add: exportPDF_def exportPNG_def fitToPage_def fitToCanvas_def Let_def
          default_to_def)
  from exportPDF_title_author [OF run] run show ?thesis by simp
qed


end
